theory Spec2Isabelle
  imports
    Complex_Main
    "HOL-Library.Sublist"
    "HOL-Library.Char_ord"
    "HOL-Library.List_Lexorder"
begin

section \<open>Strings\<close>

text \<open>
  Python's \<^verbatim>\<open>str\<close> and \<^verbatim>\<open>bytes\<close> are both modelled as \<^typ>\<open>string\<close>: a list of
  characters with codes below 256. The order on strings is the lexicographic one on
  character codes, which is how Python's \<^verbatim>\<open>sorted\<close> compares such strings.
\<close>

type_synonym bytes = string
type_synonym path = string

text \<open>\<^verbatim>\<open>str.isspace\<close> on the characters below 256, as \<^verbatim>\<open>str.strip()\<close> uses it.\<close>

definition isspace :: "char \<Rightarrow> bool" where
  "isspace c = (of_char c \<in> {9, 10, 11, 12, 13, 28, 29, 30, 31, 32, 133, 160 :: nat})"

definition strip :: "string \<Rightarrow> string" where
  "strip s = rev (dropWhile isspace (rev (dropWhile isspace s)))"

definition endswith :: "string \<Rightarrow> string \<Rightarrow> bool" where
  "endswith s suffix_text = suffix suffix_text s"

text \<open>\<^verbatim>\<open>s.split(sep)\<close> with a one-character separator: never the empty list.\<close>

fun split :: "char \<Rightarrow> string \<Rightarrow> string list" where
  "split sep [] = [[]]"
| "split sep (c # cs) =
     (if c = sep then [] # split sep cs
      else (case split sep cs of [] \<Rightarrow> [[c]] | p # ps \<Rightarrow> (c # p) # ps))"

text \<open>The decimal text of a natural number, as an f-string prints an \<^verbatim>\<open>int\<close>.\<close>

fun str_nat :: "nat \<Rightarrow> string" where
  "str_nat n =
     (if n < 10 then [char_of (48 + n)]
      else str_nat (n div 10) @ [char_of (48 + n mod 10)])"

declare str_nat.simps [simp del]

text \<open>
  \<^verbatim>\<open>os.path.join(a, b)\<close> for two POSIX components: an absolute \<open>b\<close> replaces \<open>a\<close>,
  and a separator is inserted unless \<open>a\<close> is empty or already ends with one.
\<close>

definition path_join :: "path \<Rightarrow> path \<Rightarrow> path" where
  "path_join a b =
     (if b \<noteq> [] \<and> hd b = CHR ''/'' then b
      else if a = [] \<or> last a = CHR ''/'' then a @ b
      else a @ ''/'' @ b)"

text \<open>
  \<^verbatim>\<open>os.path.dirname(p)\<close> on a POSIX path: everything up to the last separator, with the
  trailing separators removed unless nothing else is left. It is empty exactly when
  the path holds no separator.
\<close>

definition dirname :: "path \<Rightarrow> path" where
  "dirname p =
     (let head = rev (dropWhile (\<lambda>c. c \<noteq> CHR ''/'') (rev p))
      in if head \<noteq> [] \<and> \<not> list_all (\<lambda>c. c = CHR ''/'') head
         then rev (dropWhile (\<lambda>c. c = CHR ''/'') (rev head))
         else head)"

section \<open>The outside world\<close>

text \<open>
  \<^verbatim>\<open>download_file\<close> raises \<^verbatim>\<open>Exception\<close> subclasses; the model names the ones the
  code can meet. \<open>FileNotFoundError\<close> is what \<^verbatim>\<open>os.makedirs('')\<close> raises,
  \<open>RequestException\<close> is an exception raised by \<^verbatim>\<open>requests.get\<close>
  (connection error, timeout), \<open>StreamException\<close> one raised while the body is
  iterated, \<open>ValueError\<close> the one of \<^verbatim>\<open>int()\<close> and of \<^verbatim>\<open>time.sleep\<close>,
  \<open>UnexpectedExit current total\<close> the exception of line 81 with the two sizes of its
  message, \<open>BadStatus code\<close> the one of line 85, and \<open>SystemExit code\<close> is
  \<^verbatim>\<open>sys.exit(code)\<close>.
\<close>

datatype error =
    FileNotFoundError
  | RequestException
  | StreamException
  | ValueError
  | UnexpectedExit nat int
  | BadStatus int
  | SystemExit int

text \<open>
  \<^verbatim>\<open>download_file\<close> returns \<^verbatim>\<open>None\<close> on every path that does not raise. The outcome
  names the branch it returned through: \<open>Completed\<close> for the 200/206 branch
  (lines 48 to 81), \<open>AlreadyComplete\<close> for the 416 branch (lines 82 and 83).
\<close>

datatype outcome = Completed | AlreadyComplete

datatype mode = Ab | Wb

type_synonym headers = "(string \<times> string) list"

text \<open>
  The \<^verbatim>\<open>Content-Length\<close> header as line 52 to 54 use it:
  \<^verbatim>\<open>response.headers.get('Content-Length')\<close> is \<^verbatim>\<open>None\<close> (\<open>Absent\<close>), or a string on
  which \<^verbatim>\<open>int()\<close> raises \<^verbatim>\<open>ValueError\<close> (\<open>Unreadable\<close>), or a string that \<^verbatim>\<open>int()\<close>
  reads as \<open>n\<close> (\<open>Declared n\<close>; \<^verbatim>\<open>int()\<close> accepts a sign, so \<open>n\<close> may be negative).
\<close>

datatype content_length = Absent | Unreadable | Declared int

text \<open>
  What a server sends back: the status code, the \<^verbatim>\<open>Content-Length\<close> header, the chunks
  that \<^verbatim>\<open>iter_content(chunk_size=8192)\<close> yields, and whether the iteration ends with
  an exception after them (a dropped connection, a read timeout).
\<close>

record response =
  status_code :: int
  content_length :: content_length
  iter_content :: "bytes list"
  stream_raises :: bool

datatype reply = Raises | Reply response

text \<open>A server answers a \<^verbatim>\<open>GET\<close> of a url with request headers.\<close>

type_synonym server = "string \<Rightarrow> headers \<Rightarrow> reply"

text \<open>
  The calls a task makes to the outside, in the order it makes them:
  \<^verbatim>\<open>requests.get(url, headers=...)\<close> (line 47), \<^verbatim>\<open>open(local_filename, mode)\<close>
  (line 70), \<^verbatim>\<open>time.sleep(seconds)\<close> (line 186), and each call
  \<^verbatim>\<open>download_file(url, local_path)\<close> of line 174 with what it did: returned
  (\<open>Inr\<close>) or raised (\<open>Inl\<close>).
\<close>

datatype event =
    Get string headers
  | Open path mode
  | Sleep rat
  | Attempt "error + outcome"

text \<open>
  The state a task works on: the contents of the files on disk, the text of
  \<^verbatim>\<open>failed_downloads.txt\<close> (in the working directory, kept apart from the download
  targets), and the trace of calls made so far. The trace only records; nothing reads it.
\<close>

record world =
  files :: "path \<rightharpoonup> bytes"
  failed_downloads :: string
  trace :: "event list"

definition record_event :: "event \<Rightarrow> world \<Rightarrow> world" where
  "record_event e w = w\<lparr>trace := trace w @ [e]\<rparr>"

text \<open>The events a run from \<open>w\<close> to \<open>w'\<close> added to the trace.\<close>

definition new_events :: "world \<Rightarrow> world \<Rightarrow> event list" where
  "new_events w w' = drop (length (trace w)) (trace w')"

section \<open>download_file\<close>

text \<open>
  \<^verbatim>\<open>os.path.getsize(p) if os.path.exists(p) else 0\<close> (lines 40 and 76).
\<close>

definition getsize :: "world \<Rightarrow> path \<Rightarrow> nat" where
  "getsize w p = (case files w p of None \<Rightarrow> 0 | Some content \<Rightarrow> length content)"

text \<open>Lines 42 to 44: the request headers.\<close>

definition request_headers :: "nat \<Rightarrow> headers" where
  "request_headers current_size =
     (if current_size > 0 then [(''Range'', ''bytes='' @ str_nat current_size @ ''-'')]
      else [])"

text \<open>Line 49: the mode the local file is opened in.\<close>

definition open_mode :: "nat \<Rightarrow> mode" where
  "open_mode current_size = (if current_size > 0 then Ab else Wb)"

text \<open>
  Lines 52 to 56: \<open>total_size\<close>, \<open>None\<close> when unknown; \<^verbatim>\<open>int()\<close> raises on a header
  it cannot read.
\<close>

definition total_size_of :: "response \<Rightarrow> nat \<Rightarrow> error + int option" where
  "total_size_of response current_size =
     (case content_length response of
        Absent \<Rightarrow> Inr None
      | Unreadable \<Rightarrow> Inl ValueError
      | Declared n \<Rightarrow> Inr (Some (n + int current_size)))"

text \<open>
  \<^verbatim>\<open>open(local_filename, mode)\<close>: \<^verbatim>\<open>'wb'\<close> creates the file or truncates it,
  \<^verbatim>\<open>'ab'\<close> creates it when missing and keeps its contents otherwise.
\<close>

definition open_file :: "path \<Rightarrow> mode \<Rightarrow> world \<Rightarrow> world" where
  "open_file p m w =
     record_event (Open p m)
       (case m of
          Wb \<Rightarrow> w\<lparr>files := (files w)(p \<mapsto> [])\<rparr>
        | Ab \<Rightarrow> (case files w p of
                   None \<Rightarrow> w\<lparr>files := (files w)(p \<mapsto> [])\<rparr>
                 | Some content \<Rightarrow> w))"

text \<open>\<^verbatim>\<open>f.write(chunk)\<close> on the open file: the bytes go to its end.\<close>

definition write_file :: "path \<Rightarrow> bytes \<Rightarrow> world \<Rightarrow> world" where
  "write_file p chunk w =
     w\<lparr>files := (files w)(p \<mapsto> (case files w p of None \<Rightarrow> [] | Some content \<Rightarrow> content) @ chunk)\<rparr>"

text \<open>Lines 71 to 74: the streaming loop, which skips empty keep-alive chunks.\<close>

fun write_chunks :: "path \<Rightarrow> bytes list \<Rightarrow> world \<Rightarrow> world" where
  "write_chunks p [] w = w"
| "write_chunks p (chunk # rest) w =
     (if chunk \<noteq> [] then write_chunks p rest (write_file p chunk w)
      else write_chunks p rest w)"

text \<open>
  \<^verbatim>\<open>download_file(url, local_filename)\<close> against a server. The result is what the call
  did (\<open>Inl\<close>: the exception that left it, re-raised by line 88) and the world it
  left. Line 37 is \<^verbatim>\<open>os.makedirs(os.path.dirname(local_filename), exist_ok=True)\<close>: for
  a path without a directory part this is \<^verbatim>\<open>os.makedirs('')\<close>, which raises
  \<^verbatim>\<open>FileNotFoundError\<close> before anything else happens; otherwise it changes no file
  content and is taken to succeed. The progress bar is display only.
\<close>

definition download_file :: "string \<Rightarrow> path \<Rightarrow> server \<Rightarrow> world \<Rightarrow> (error + outcome) \<times> world" where
  "download_file url local_filename srv w =
     (if dirname local_filename = [] then (Inl FileNotFoundError, w)
      else
       (let current_size = getsize w local_filename;
            hdrs = request_headers current_size;
            w1 = record_event (Get url hdrs) w
        in case srv url hdrs of
             Raises \<Rightarrow> (Inl RequestException, w1)
           | Reply response \<Rightarrow>
               if status_code response = 200 \<or> status_code response = 206 then
                 (let md = open_mode current_size in
                  case total_size_of response current_size of
                    Inl e \<Rightarrow> (Inl e, w1)
                  | Inr total_size \<Rightarrow>
                      (let w2 = write_chunks local_filename (iter_content response)
                                  (open_file local_filename md w1)
                       in if stream_raises response then (Inl StreamException, w2)
                          else (let current_size' = getsize w2 local_filename
                                in case total_size of
                                     None \<Rightarrow> (Inr Completed, w2)
                                   | Some t \<Rightarrow>
                                       if t \<le> int current_size' then (Inr Completed, w2)
                                       else (Inl (UnexpectedExit current_size' t), w2))))
               else if status_code response = 416 then (Inr AlreadyComplete, w1)
               else (Inl (BadStatus (status_code response)), w1)))"

section \<open>load_tsv and iterate_retry\<close>

text \<open>
  A Python \<^verbatim>\<open>dict\<close> from strings to strings: its items in insertion order, the keys
  pairwise distinct. \<^verbatim>\<open>d[k] = v\<close> replaces the value of a key that is present and
  appends the item otherwise; \<^verbatim>\<open>d.get(k)\<close> is \<^const>\<open>map_of\<close>.
\<close>

type_synonym dict = "(string \<times> string) list"

definition dict_set :: "dict \<Rightarrow> string \<Rightarrow> string \<Rightarrow> dict" where
  "dict_set d k v =
     (if k \<in> set (map fst d) then map (\<lambda>(k', v'). if k' = k then (k', v) else (k', v')) d
      else d @ [(k, v)])"

text \<open>Lines 104 to 110: one pass over the lines of the TSV file.\<close>

fun load_lines :: "dict \<Rightarrow> string list \<Rightarrow> dict" where
  "load_lines map2url [] = map2url"
| "load_lines map2url (line # rest) =
     (let parts = split (CHR 0x09) (strip line)
      in if length parts \<ge> 2 then
           (if endswith (parts ! 0) ''.tar''
            then load_lines (dict_set map2url (parts ! 0) (parts ! 1)) rest
            else load_lines map2url rest)
         else load_lines map2url rest)"

text \<open>
  \<^verbatim>\<open>load_tsv(path)\<close>: the file is given by its lines, \<open>None\<close> when it does not exist
  (\<^verbatim>\<open>FileNotFoundError\<close>, answered by \<^verbatim>\<open>sys.exit(1)\<close>).
\<close>

definition load_tsv :: "string list option \<Rightarrow> error + dict" where
  "load_tsv tsv_file =
     (case tsv_file of
        None \<Rightarrow> Inl (SystemExit 1)
      | Some file_lines \<Rightarrow> Inr (load_lines [] file_lines))"

text \<open>
  Lines 128 to 145: the identifiers to download. The retry file is given by the lines
  \<^verbatim>\<open>readlines()\<close> returns, \<open>None\<close> when \<^verbatim>\<open>os.path.exists(retry_path)\<close> is false.
\<close>

definition to_downloads :: "string list option \<Rightarrow> dict \<Rightarrow> string list" where
  "to_downloads retry_file map2url =
     (case retry_file of
        None \<Rightarrow> filter (\<lambda>tar. endswith tar ''.tar'') (sort (map fst map2url))
      | Some file_lines \<Rightarrow>
          (let lines = map strip (filter (\<lambda>line. strip line \<noteq> []) file_lines)
           in if lines = [] then filter (\<lambda>tar. endswith tar ''.tar'') (sort (map fst map2url))
              else lines))"

text \<open>
  Lines 147 to 154: the loop of the generator. The first component is what it yields,
  in order; the second lists the targets of the \<^verbatim>\<open>No URL found for target\<close> lines it
  prints. \<^verbatim>\<open>if url\<close> is false for \<^verbatim>\<open>None\<close> and for the empty string.
\<close>

fun yield_tasks :: "dict \<Rightarrow> string list \<Rightarrow> (string \<times> string) list \<times> string list" where
  "yield_tasks map2url [] = ([], [])"
| "yield_tasks map2url (tar # rest) =
     (case yield_tasks map2url rest of (yielded, warned) \<Rightarrow>
        (case map_of map2url tar of
           None \<Rightarrow> (yielded, tar # warned)
         | Some url \<Rightarrow>
             if url \<noteq> [] then ((tar, url) # yielded, warned)
             else (yielded, tar # warned)))"

definition iterate_retry :: "string list option \<Rightarrow> dict \<Rightarrow> (string \<times> string) list \<times> string list" where
  "iterate_retry retry_file map2url = yield_tasks map2url (to_downloads retry_file map2url)"

section \<open>download_task\<close>

text \<open>
  \<^verbatim>\<open>time.sleep(seconds)\<close> raises \<^verbatim>\<open>ValueError\<close> on a negative length. Durations are
  rationals: \<^verbatim>\<open>backoff_factor * (2**(retries - 1))\<close> is computed exactly by the floats
  of the source for the shipped \<^verbatim>\<open>backoff_factor = 0.5\<close> and \<^verbatim>\<open>max_retries = 10\<close>.
\<close>

definition sleep :: "rat \<Rightarrow> world \<Rightarrow> error + world" where
  "sleep seconds w =
     (if seconds < 0 then Inl ValueError else Inr (record_event (Sleep seconds) w))"

text \<open>
  Lines 181 and 182: one line appended to \<^verbatim>\<open>failed_downloads.txt\<close>. The file is
  taken to be writable.
\<close>

definition append_failed :: "string \<Rightarrow> world \<Rightarrow> world" where
  "append_failed tar w = w\<lparr>failed_downloads := failed_downloads w @ tar @ [CHR 0x0A]\<rparr>"

text \<open>
  Lines 172 to 186: the \<^verbatim>\<open>while retries <= max_retries\<close> loop, from a value of
  \<open>retries\<close>. The network is given per attempt: the call of \<^verbatim>\<open>download_file\<close>
  made with \<open>retries = n\<close> meets the server \<open>net n\<close>. \<open>Inl\<close> is an exception that
  leaves \<^verbatim>\<open>download_task\<close>.
\<close>

function download_loop ::
  "string \<Rightarrow> string \<Rightarrow> path \<Rightarrow> int \<Rightarrow> rat \<Rightarrow> (nat \<Rightarrow> server) \<Rightarrow> nat \<Rightarrow> world \<Rightarrow> error + world" where
  "download_loop tar url local_path max_retries backoff_factor net retries w =
     (if int retries \<le> max_retries then
        (case download_file url local_path (net retries) w of (r, w1) \<Rightarrow>
           (let w2 = record_event (Attempt r) w1
            in case r of
                 Inr done \<Rightarrow> Inr w2
               | Inl e \<Rightarrow>
                   (let retries' = retries + 1
                    in if int retries' > max_retries then Inr (append_failed tar w2)
                       else (let sleep_time = backoff_factor * 2 ^ (retries' - 1)
                             in case sleep sleep_time w2 of
                                  Inl e' \<Rightarrow> Inl e'
                                | Inr w3 \<Rightarrow>
                                    download_loop tar url local_path max_retries
                                      backoff_factor net retries' w3))))
      else Inr w)"
  by pat_completeness auto
termination
  by (relation "measure (\<lambda>(tar, url, local_path, max_retries, backoff_factor, net, retries, w).
        nat (max_retries + 1 - int retries))") auto

declare download_loop.simps [simp del]

text \<open>\<^verbatim>\<open>download_task(args, output_dir, max_retries, backoff_factor)\<close>.\<close>

definition download_task ::
  "string \<times> string \<Rightarrow> path \<Rightarrow> int \<Rightarrow> rat \<Rightarrow> (nat \<Rightarrow> server) \<Rightarrow> world \<Rightarrow> error + world" where
  "download_task args output_dir max_retries backoff_factor net w =
     (case args of (tar, url) \<Rightarrow>
        (let local_path = path_join output_dir tar
         in download_loop tar url local_path max_retries backoff_factor net 0 w))"

text \<open>
  Line 217 of \<^verbatim>\<open>main\<close>:
  \<^verbatim>\<open>partial(download_task, output_dir=args.output, max_retries=10, backoff_factor=0.5)\<close>,
  which are also the defaults of \<^verbatim>\<open>download_task\<close>.
\<close>

definition download_partial ::
  "path \<Rightarrow> string \<times> string \<Rightarrow> (nat \<Rightarrow> server) \<Rightarrow> world \<Rightarrow> error + world" where
  "download_partial output_dir args net w = download_task args output_dir 10 (1 / 2) net w"

section \<open>Vocabulary of the properties\<close>

text \<open>
  The fetch of \<open>url\<close> into \<open>local_filename\<close> receives the response \<open>r\<close>: it
  gets as far as the request of line 47, and the server answers that request with
  \<open>r\<close>.
\<close>

definition receives :: "string \<Rightarrow> path \<Rightarrow> server \<Rightarrow> world \<Rightarrow> response \<Rightarrow> bool" where
  "receives url local_filename srv w r =
     (dirname local_filename \<noteq> []
      \<and> srv url (request_headers (getsize w local_filename)) = Reply r)"

text \<open>
  The answers whose body \<^verbatim>\<open>download_file\<close> streams into the local file: a 200 or 206
  response whose Content-Length header is absent or readable.
\<close>

definition streamed :: "reply \<Rightarrow> bool" where
  "streamed answered =
     (case answered of
        Raises \<Rightarrow> False
      | Reply r \<Rightarrow> (status_code r = 200 \<or> status_code r = 206) \<and> content_length r \<noteq> Unreadable)"

text \<open>A target that \<^verbatim>\<open>map2url.get(tar)\<close> gives a non-empty url for.\<close>

definition has_url :: "dict \<Rightarrow> string \<Rightarrow> bool" where
  "has_url map2url tar = (case map_of map2url tar of None \<Rightarrow> False | Some url \<Rightarrow> url \<noteq> [])"

text \<open>The identifiers a retry file lists: its non-blank lines, stripped.\<close>

definition listed :: "string list \<Rightarrow> string list" where
  "listed file_lines = map strip (filter (\<lambda>line. strip line \<noteq> []) file_lines)"

definition is_get :: "event \<Rightarrow> bool" where
  "is_get e = (case e of Get url hdrs \<Rightarrow> True | _ \<Rightarrow> False)"

text \<open>The part of a trace the retry loop is responsible for.\<close>

definition attempts_and_sleeps :: "event list \<Rightarrow> event list" where
  "attempts_and_sleeps evs =
     filter (\<lambda>e. case e of Sleep seconds \<Rightarrow> True | Attempt r \<Rightarrow> True | _ \<Rightarrow> False) evs"

text \<open>
  The backoff schedule in the words of the specification: after the failed attempt
  number \<open>n + 1\<close> (counting from \<open>n = 0\<close>) the task sleeps
  \<open>backoff_factor * 2 ^ n\<close> seconds before the next attempt. The list holds the
  errors of the failed attempts, in order.
\<close>

fun backoff_schedule :: "rat \<Rightarrow> nat \<Rightarrow> error list \<Rightarrow> event list" where
  "backoff_schedule b n [] = []"
| "backoff_schedule b n (e # es) =
     Attempt (Inl e) # Sleep (b * 2 ^ n) # backoff_schedule b (Suc n) es"

section \<open>Concrete inputs\<close>

text \<open>A fresh world with the given files on disk.\<close>

definition disk :: "(path \<times> bytes) list \<Rightarrow> world" where
  "disk fs = \<lparr>files = map_of fs, failed_downloads = [], trace = []\<rparr>"

text \<open>A server that gives the same answer to every request.\<close>

definition answer :: "int \<Rightarrow> content_length \<Rightarrow> bytes list \<Rightarrow> bool \<Rightarrow> server" where
  "answer code len chunks broken = (\<lambda>url hdrs.
     Reply \<lparr>status_code = code, content_length = len, iter_content = chunks,
            stream_raises = broken\<rparr>)"

text \<open>A network that refuses the first three attempts and then serves three bytes.\<close>

definition flaky :: "nat \<Rightarrow> server" where
  "flaky n = (if n < 3 then (\<lambda>url hdrs. Raises) else answer 200 (Declared 3) [''abc''] False)"

text \<open>A network that refuses every attempt.\<close>

definition unreachable :: "nat \<Rightarrow> server" where
  "unreachable n = (\<lambda>url hdrs. Raises)"

section \<open>Effects of the file operations\<close>

lemmas fetch_eval =
  download_file_def dirname_def getsize_def request_headers_def open_mode_def total_size_of_def
  open_file_def write_file_def record_event_def answer_def disk_def Let_def

lemma files_record_event: "files (record_event e w) = files w"
  by (simp add: record_event_def)

lemma failed_downloads_record_event: "failed_downloads (record_event e w) = failed_downloads w"
  by (simp add: record_event_def)

lemma trace_record_event: "trace (record_event e w) = trace w @ [e]"
  by (simp add: record_event_def)

lemma new_events_append: "trace w' = trace w @ evs \<Longrightarrow> new_events w w' = evs"
  by (simp add: new_events_def)



lemma trace_write_chunks: "trace (write_chunks p chunks w) = trace w"
  by (induction chunks arbitrary: w) (simp_all add: write_file_def)

lemma failed_downloads_write_chunks:
  "failed_downloads (write_chunks p chunks w) = failed_downloads w"
  by (induction chunks arbitrary: w) (simp_all add: write_file_def)


lemma trace_open_file: "trace (open_file p m w) = trace w @ [Open p m]"
  by (simp add: open_file_def trace_record_event split: mode.splits option.splits)

lemma failed_downloads_open_file: "failed_downloads (open_file p m w) = failed_downloads w"
  by (simp add: open_file_def failed_downloads_record_event split: mode.splits option.splits)

section \<open>The worlds download_file can leave\<close>

lemma download_file_worlds:
  "(dirname p = [] \<and> snd (download_file url p srv w) = w)
   \<or> (dirname p \<noteq> [] \<and> \<not> streamed (srv url (request_headers (getsize w p)))
        \<and> snd (download_file url p srv w)
            = record_event (Get url (request_headers (getsize w p))) w)
   \<or> (dirname p \<noteq> [] \<and> streamed (srv url (request_headers (getsize w p)))
        \<and> (\<exists>chunks. snd (download_file url p srv w)
              = write_chunks p chunks (open_file p (open_mode (getsize w p))
                  (record_event (Get url (request_headers (getsize w p))) w))))"
  by (auto simp add: download_file_def streamed_def total_size_of_def Let_def
      split: reply.splits content_length.splits)

lemma download_file_effects:
  "\<exists>evs. trace (snd (download_file url p srv w)) = trace w @ evs
      \<and> attempts_and_sleeps evs = []
      \<and> length (filter is_get evs) = (if dirname p = [] then 0 else 1)
      \<and> failed_downloads (snd (download_file url p srv w)) = failed_downloads w"
  using download_file_worlds [where p = p and url = url and srv = srv and w = w]
  by (auto simp add: trace_record_event trace_write_chunks trace_open_file
      failed_downloads_record_event failed_downloads_write_chunks failed_downloads_open_file
      attempts_and_sleeps_def is_get_def)

section \<open>Properties of download_file\<close>

lemma str_nat_2: "str_nat (Suc (Suc 0)) = ''2''"
proof -
  have "str_nat 2 = ''2''" by code_simp
  then show ?thesis by (simp add: numeral_2_eq_2)
qed


lemma dirname_raw: "dirname ''raw/a.tar'' = ''raw''"
  by (simp add: dirname_def)

text \<open>
  C8. A fetch that receives a 416 response returns through the AlreadyComplete branch
  and leaves every file on disk as it was: the local file has the same contents and the
  same length after the call as before it.
\<close>

theorem already_complete_416:
  assumes "receives url p srv w r"
    and "status_code r = 416"
  shows "fst (download_file url p srv w) = Inr AlreadyComplete
     \<and> files (snd (download_file url p srv w)) = files w
     \<and> getsize (snd (download_file url p srv w)) p = getsize w p"
  using assms
  by (simp add: receives_def download_file_def Let_def getsize_def files_record_event)

text \<open>C8 at a file of three bytes that the server reports as complete.\<close>

theorem already_complete_416_witness:
  "fst (download_file ''u'' ''raw/a.tar'' (answer 416 Absent [] False)
          (disk [(''raw/a.tar'', ''abc'')])) = Inr AlreadyComplete
   \<and> files (snd (download_file ''u'' ''raw/a.tar'' (answer 416 Absent [] False)
          (disk [(''raw/a.tar'', ''abc'')]))) ''raw/a.tar'' = Some ''abc''"
proof -
  let ?r = "\<lparr>status_code = 416, content_length = Absent, iter_content = [],
             stream_raises = False\<rparr>"
  let ?w = "disk [(''raw/a.tar'', ''abc'')]"
  have reply: "receives ''u'' ''raw/a.tar'' (answer 416 Absent [] False) ?w ?r"
    by (simp add: receives_def answer_def dirname_raw)
  have status: "status_code ?r = 416" by simp
  from already_complete_416 [OF reply status]
  show ?thesis by (simp add: disk_def)
qed

text \<open>
  C6. A fetch that receives a 200 or 206 response without a Content-Length header, and
  whose stream ends without an exception, returns through the Completed branch,
  whatever bytes the body held.
\<close>

theorem unknown_length_completed:
  assumes "receives url p srv w r"
    and "status_code r = 200 \<or> status_code r = 206"
    and "content_length r = Absent"
    and "\<not> stream_raises r"
  shows "fst (download_file url p srv w) = Inr Completed"
  using assms by (auto simp add: receives_def download_file_def Let_def total_size_of_def)

text \<open>C6 at a 200 response of three bytes and no declared length.\<close>

theorem unknown_length_completed_witness:
  "fst (download_file ''u'' ''raw/a.tar'' (answer 200 Absent [''abc''] False) (disk []))
     = Inr Completed"
proof -
  let ?r = "\<lparr>status_code = 200, content_length = Absent, iter_content = [''abc''],
             stream_raises = False\<rparr>"
  have reply: "receives ''u'' ''raw/a.tar'' (answer 200 Absent [''abc''] False) (disk []) ?r"
    by (simp add: receives_def answer_def dirname_raw)
  have status: "status_code ?r = 200 \<or> status_code ?r = 206" by simp
  have len: "content_length ?r = Absent" by simp
  have ok: "\<not> stream_raises ?r" by simp
  from unknown_length_completed [OF reply status len ok]
  show ?thesis .
qed

text \<open>
  C1, as the code has it. For a fetch that receives a 200 or 206 response whose declared
  length gives a known total size: a final on-disk size below the total size always
  makes the fetch raise; and when the stream ends without an exception, the fetch
  raises (the exception of line 81) exactly when the final size is below the total
  size, and returns through the Completed branch otherwise.
\<close>

theorem size_check_after_stream:
  assumes "receives url p srv w r"
    and "status_code r = 200 \<or> status_code r = 206"
    and "content_length r = Declared n"
  shows "(int (getsize (snd (download_file url p srv w)) p) < n + int (getsize w p)
            \<longrightarrow> (\<exists>e. fst (download_file url p srv w) = Inl e))
       \<and> (\<not> stream_raises r \<longrightarrow>
            fst (download_file url p srv w)
              = (if int (getsize (snd (download_file url p srv w)) p) < n + int (getsize w p)
                 then Inl (UnexpectedExit (getsize (snd (download_file url p srv w)) p)
                             (n + int (getsize w p)))
                 else Inr Completed))"
  using assms by (auto simp add: receives_def download_file_def Let_def total_size_of_def)

text \<open>
  C1 at a resumed download: two bytes on disk, a 206 response that declares three more
  and delivers one. The final size 3 is below the total size 5.
\<close>

theorem size_check_after_stream_witness:
  "fst (download_file ''u'' ''raw/a.tar'' (answer 206 (Declared 3) [''c''] False)
          (disk [(''raw/a.tar'', ''ab'')])) = Inl (UnexpectedExit 3 5)"
proof -
  let ?r = "\<lparr>status_code = 206, content_length = Declared 3, iter_content = [''c''],
             stream_raises = False\<rparr>"
  let ?w = "disk [(''raw/a.tar'', ''ab'')]"
  have reply: "receives ''u'' ''raw/a.tar'' (answer 206 (Declared 3) [''c''] False) ?w ?r"
    by (simp add: receives_def answer_def dirname_raw)
  have status: "status_code ?r = 200 \<or> status_code ?r = 206" by simp
  have len: "content_length ?r = Declared 3" by simp
  have size: "getsize (snd (download_file ''u'' ''raw/a.tar''
                 (answer 206 (Declared 3) [''c''] False) ?w)) ''raw/a.tar'' = 3"
    by (simp add: fetch_eval)
  have before: "getsize ?w ''raw/a.tar'' = 2"
    by (simp add: getsize_def disk_def)
  from size_check_after_stream [OF reply status len]
  show ?thesis by (simp add: size before)
qed

text \<open>
  The claim C1 as written, without the condition on the stream, fails: a 200 response
  declares three bytes, four bytes reach the disk, and the stream then ends with an
  exception. (The declared length counts the body as sent; \<^verbatim>\<open>iter_content\<close> yields it
  decoded, so under a content encoding the file can pass the declared length before
  the stream is over.) The final size 4 is not below the total size 3, yet the fetch
  raises.
\<close>

theorem size_check_counterexample:
  "total_size_of \<lparr>status_code = 200, content_length = Declared 3, iter_content = [''abcd''],
       stream_raises = True\<rparr> (getsize (disk []) ''raw/a.tar'') = Inr (Some 3)
   \<and> getsize (snd (download_file ''u'' ''raw/a.tar'' (answer 200 (Declared 3) [''abcd''] True)
         (disk []))) ''raw/a.tar'' = 4
   \<and> fst (download_file ''u'' ''raw/a.tar'' (answer 200 (Declared 3) [''abcd''] True)
         (disk [])) = Inl StreamException"
  by (simp add: fetch_eval)

text \<open>
  C3. The code at the input where it parts from the claim: a resumed download whose
  server ignores the Range header. Two bytes \<^verbatim>\<open>xy\<close> are on disk and the request
  carries \<^verbatim>\<open>Range: bytes=2-\<close>; the server answers 200 with the whole resource of five
  bytes \<^verbatim>\<open>xyabc\<close> and Content-Length 5. Line 54 makes the total size 7, not 5; the
  five bytes are appended to the two on disk and the fetch returns through the
  Completed branch with the seven bytes \<^verbatim>\<open>xyxyabc\<close> on disk. When the same answer
  ends after three bytes without an exception, the fetch raises with total size 7.
\<close>

theorem total_size_200_ranged:
  "new_events (disk [(''raw/a.tar'', ''xy'')])
       (snd (download_file ''u'' ''raw/a.tar'' (answer 200 (Declared 5) [''xyabc''] False)
          (disk [(''raw/a.tar'', ''xy'')])))
     = [Get ''u'' [(''Range'', ''bytes=2-'')], Open ''raw/a.tar'' Ab]
   \<and> total_size_of \<lparr>status_code = 200, content_length = Declared 5,
         iter_content = [''xyabc''], stream_raises = False\<rparr>
         (getsize (disk [(''raw/a.tar'', ''xy'')]) ''raw/a.tar'') = Inr (Some 7)
   \<and> fst (download_file ''u'' ''raw/a.tar'' (answer 200 (Declared 5) [''xyabc''] False)
         (disk [(''raw/a.tar'', ''xy'')])) = Inr Completed
   \<and> files (snd (download_file ''u'' ''raw/a.tar'' (answer 200 (Declared 5) [''xyabc''] False)
         (disk [(''raw/a.tar'', ''xy'')]))) ''raw/a.tar'' = Some ''xyxyabc''
   \<and> fst (download_file ''u'' ''raw/a.tar'' (answer 200 (Declared 5) [''xya''] False)
         (disk [(''raw/a.tar'', ''xy'')])) = Inl (UnexpectedExit 5 7)"
  by (simp add: fetch_eval new_events_def str_nat_2)




section \<open>Properties of iterate_retry\<close>

lemma yield_tasks_eq:
  "yield_tasks m tars =
     (map (\<lambda>tar. (tar, the (map_of m tar))) (filter (has_url m) tars),
      filter (\<lambda>tar. \<not> has_url m tar) tars)"
  by (induction tars) (auto simp add: has_url_def split: option.splits)

lemma listed_Nil: "listed ls = [] \<longleftrightarrow> (\<forall>l\<in>set ls. strip l = [])"
  by (auto simp add: listed_def filter_empty_conv)

text \<open>
  C5, as the code has it. When the retry file is absent or holds only blank lines, the
  generator yields the manifest targets that end in \<^verbatim>\<open>.tar\<close> and have a non-empty
  url, in sorted order of identifier, each with its manifest url. When the retry file
  lists identifiers, it yields the listed identifiers that have a non-empty manifest
  url, in the order given, each with its manifest url. In both cases every other
  candidate (absent from the manifest, or with an empty url) is skipped with a warning
  and yields nothing.
\<close>

theorem work_set_resolution:
  "(retry_file = None \<or> (\<exists>ls. retry_file = Some ls \<and> (\<forall>l\<in>set ls. strip l = [])) \<longrightarrow>
      iterate_retry retry_file m =
        (map (\<lambda>tar. (tar, the (map_of m tar)))
           (filter (\<lambda>tar. endswith tar ''.tar'' \<and> has_url m tar) (sort (map fst m))),
         filter (\<lambda>tar. endswith tar ''.tar'' \<and> \<not> has_url m tar) (sort (map fst m))))
   \<and> (\<forall>ls. retry_file = Some ls \<and> (\<exists>l\<in>set ls. strip l \<noteq> []) \<longrightarrow>
      iterate_retry retry_file m =
        (map (\<lambda>tar. (tar, the (map_of m tar))) (filter (has_url m) (listed ls)),
         filter (\<lambda>tar. \<not> has_url m tar) (listed ls)))"
proof (intro conjI impI allI)
  assume "retry_file = None \<or> (\<exists>ls. retry_file = Some ls \<and> (\<forall>l\<in>set ls. strip l = []))"
  then have "to_downloads retry_file m = filter (\<lambda>tar. endswith tar ''.tar'') (sort (map fst m))"
    by (auto simp add: to_downloads_def Let_def filter_empty_conv)
  then show "iterate_retry retry_file m =
        (map (\<lambda>tar. (tar, the (map_of m tar)))
           (filter (\<lambda>tar. endswith tar ''.tar'' \<and> has_url m tar) (sort (map fst m))),
         filter (\<lambda>tar. endswith tar ''.tar'' \<and> \<not> has_url m tar) (sort (map fst m)))"
    by (simp add: iterate_retry_def yield_tasks_eq conj_commute)
next
  fix ls
  assume a: "retry_file = Some ls \<and> (\<exists>l\<in>set ls. strip l \<noteq> [])"
  then have "listed ls \<noteq> []" by (simp add: listed_Nil)
  with a have "to_downloads retry_file m = listed ls"
    by (simp add: to_downloads_def Let_def listed_def)
  then show "iterate_retry retry_file m =
        (map (\<lambda>tar. (tar, the (map_of m tar))) (filter (has_url m) (listed ls)),
         filter (\<lambda>tar. \<not> has_url m tar) (listed ls))"
    by (simp add: iterate_retry_def yield_tasks_eq)
qed

text \<open>
  C5 at the manifest of the specification's example, loaded as B.tar then A.tar:
  without a retry file both targets come out in sorted order; a retry file that lists
  B.tar, a blank line and an unknown zz.tar yields B.tar alone and warns about zz.tar.
\<close>

theorem work_set_resolution_witness:
  "iterate_retry None [(''B.tar'', ''urlB''), (''A.tar'', ''urlA'')]
     = ([(''A.tar'', ''urlA''), (''B.tar'', ''urlB'')], [])
   \<and> iterate_retry (Some [''B.tar'' @ [CHR 0x0A], [CHR 0x0A], ''zz.tar''])
       [(''B.tar'', ''urlB''), (''A.tar'', ''urlA'')]
     = ([(''B.tar'', ''urlB'')], [''zz.tar''])"
proof -
  let ?m = "[(''B.tar'', ''urlB''), (''A.tar'', ''urlA'')]"
  let ?ls = "[''B.tar'' @ [CHR 0x0A], [CHR 0x0A], ''zz.tar'']"
  have sorted_keys: "sort (map fst ?m) = [''A.tar'', ''B.tar'']" by code_simp
  have ends: "endswith ''A.tar'' ''.tar''" "endswith ''B.tar'' ''.tar''" by code_simp+
  have urls: "has_url ?m ''A.tar''" "has_url ?m ''B.tar''" "\<not> has_url ?m ''zz.tar''"
    by (simp_all add: has_url_def)
  have ls: "listed ?ls = [''B.tar'', ''zz.tar'']" by code_simp
  have nonblank: "\<exists>l\<in>set ?ls. strip l \<noteq> []"
    using ls by (auto simp add: listed_def filter_empty_conv)
  from work_set_resolution [of None ?m] work_set_resolution [of "Some ?ls" ?m] nonblank
  show ?thesis
    by (simp only: sorted_keys ls) (simp add: ends urls)
qed

text \<open>
  The claim C5 as written fails at a manifest entry with an empty url. The TSV line
  \<^verbatim>\<open>a.tar<TAB><TAB>x\<close> loads as the target a.tar with the empty url; without a retry
  file the generator then yields nothing for it and warns instead.
\<close>

theorem work_set_counterexample:
  "load_tsv (Some [''a.tar'' @ [CHR 0x09, CHR 0x09] @ ''x'' @ [CHR 0x0A]]) = Inr [(''a.tar'', [])]
   \<and> iterate_retry None [(''a.tar'', [])] = ([], [''a.tar''])"
  by code_simp

text \<open>
  C4, as the code has it. For a manifest (a dict: its keys are pairwise distinct) the
  generator yields at most one entry per target identifier when the retry file is
  absent, or lists no identifier twice; a retry file of blank lines lists none.
\<close>

theorem one_entry_per_target:
  assumes "distinct (map fst m)"
    and "case retry_file of None \<Rightarrow> True | Some ls \<Rightarrow> distinct (listed ls)"
  shows "distinct (map fst (fst (iterate_retry retry_file m)))"
proof -
  have "distinct (to_downloads retry_file m)"
    using assms by (auto simp add: to_downloads_def Let_def listed_def split: option.splits)
  moreover have "map fst (fst (iterate_retry retry_file m))
      = filter (has_url m) (to_downloads retry_file m)"
    by (simp add: iterate_retry_def yield_tasks_eq comp_def)
  ultimately show ?thesis by simp
qed

text \<open>C4 at a retry file that lists two different targets of the manifest.\<close>

theorem one_entry_per_target_witness:
  "distinct (map fst (fst (iterate_retry (Some [''B.tar'' @ [CHR 0x0A], ''A.tar'' @ [CHR 0x0A]])
      [(''B.tar'', ''urlB''), (''A.tar'', ''urlA'')])))"
proof -
  let ?m = "[(''B.tar'', ''urlB''), (''A.tar'', ''urlA'')]"
  let ?ls = "[''B.tar'' @ [CHR 0x0A], ''A.tar'' @ [CHR 0x0A]]"
  have keys: "distinct (map fst ?m)" by simp
  have "distinct (listed ?ls)" by code_simp
  then have lines: "case Some ?ls of None \<Rightarrow> True | Some ls \<Rightarrow> distinct (listed ls)"
    by simp
  from one_entry_per_target [of ?m "Some ?ls", OF keys lines] show ?thesis .
qed

text \<open>
  The claim C4 as written fails at a retry file with a repeated line: the target comes
  out twice.
\<close>

theorem one_entry_per_target_counterexample:
  "fst (iterate_retry (Some [''a.tar'' @ [CHR 0x0A], ''a.tar'' @ [CHR 0x0A]]) [(''a.tar'', ''u'')])
     = [(''a.tar'', ''u''), (''a.tar'', ''u'')]"
  by code_simp

section \<open>Properties of download_task\<close>

lemmas task_eval =
  download_partial_def download_task_def path_join_def download_loop.simps sleep_def
  append_failed_def flaky_def unreachable_def attempts_and_sleeps_def new_events_def

text \<open>One turn of the loop, given what the call of \<^verbatim>\<open>download_file\<close> did.\<close>

lemma download_loop_step:
  assumes "int k \<le> m" and "download_file url p (net k) w = (r, w1)"
  shows "download_loop tar url p m b net k w =
     (case r of
        Inr done \<Rightarrow> Inr (record_event (Attempt r) w1)
      | Inl e \<Rightarrow>
          if int k = m then Inr (append_failed tar (record_event (Attempt r) w1))
          else (case sleep (b * 2 ^ k) (record_event (Attempt r) w1) of
                  Inl e' \<Rightarrow> Inl e'
                | Inr w3 \<Rightarrow> download_loop tar url p m b net (Suc k) w3))"
  using assms
  by (subst download_loop.simps) (auto simp add: Let_def split: sum.splits)

text \<open>
  A run of the loop from \<open>retries = k\<close>, with a non-negative backoff factor: it
  returns, and its trace is the failed attempts with their sleeps followed by a last
  attempt, which succeeded or used up the budget.
\<close>

lemma download_loop_run:
  assumes "0 \<le> b"
  shows "int k \<le> m \<Longrightarrow> n = nat (m - int k) \<Longrightarrow>
    \<exists>w' errs last evs. download_loop tar url p m b net k w = Inr w'
       \<and> trace w' = trace w @ evs
       \<and> attempts_and_sleeps evs = backoff_schedule b k errs @ [Attempt last]
       \<and> int (k + length errs) \<le> m
       \<and> (isl last \<longrightarrow> int (k + length errs) = m)
       \<and> length (filter is_get evs) = (if dirname p = [] then 0 else length errs + 1)
       \<and> failed_downloads w'
            = (if isl last then failed_downloads w @ tar @ [CHR 0x0A] else failed_downloads w)"
proof (induction n arbitrary: k w)
  case 0
  then have km: "int k = m" by simp
  obtain r w1 where dl: "download_file url p (net k) w = (r, w1)"
    by (cases "download_file url p (net k) w")
  from download_file_effects [where url = url and p = p and srv = "net k" and w = w] dl
  obtain evs0 where
    ev0: "trace w1 = trace w @ evs0" "attempts_and_sleeps evs0 = []"
      "length (filter is_get evs0) = (if dirname p = [] then 0 else 1)"
      "failed_downloads w1 = failed_downloads w"
    by auto
  show ?case
    apply (rule exI [of _ "case r of Inr d \<Rightarrow> record_event (Attempt r) w1
                             | Inl e \<Rightarrow> append_failed tar (record_event (Attempt r) w1)"])
    apply (rule exI [of _ "[]"])
    apply (rule exI [of _ r])
    apply (rule exI [of _ "evs0 @ [Attempt r]"])
    using km ev0
    apply (simp add: download_loop_step [where net = net and k = k, OF "0.prems"(1) dl] km
        split: sum.splits)
    apply (auto simp add: trace_record_event append_failed_def failed_downloads_record_event
        attempts_and_sleeps_def is_get_def)
    done
next
  case (Suc n)
  then have km: "int k < m" "int (Suc k) \<le> m" "n = nat (m - int (Suc k))" by simp_all
  obtain r w1 where dl: "download_file url p (net k) w = (r, w1)"
    by (cases "download_file url p (net k) w")
  from download_file_effects [where url = url and p = p and srv = "net k" and w = w] dl
  obtain evs0 where
    ev0: "trace w1 = trace w @ evs0" "attempts_and_sleeps evs0 = []"
      "length (filter is_get evs0) = (if dirname p = [] then 0 else 1)"
      "failed_downloads w1 = failed_downloads w"
    by auto
  show ?case
  proof (cases r)
    case (Inr d)
    show ?thesis
      apply (rule exI [of _ "record_event (Attempt r) w1"])
      apply (rule exI [of _ "[]"])
      apply (rule exI [of _ r])
      apply (rule exI [of _ "evs0 @ [Attempt r]"])
      using km ev0 Inr
      apply (simp add: download_loop_step [where net = net and k = k, OF Suc.prems(1) dl])
      apply (auto simp add: trace_record_event failed_downloads_record_event
          attempts_and_sleeps_def is_get_def)
      done
  next
    case (Inl e)
    let ?w3 = "record_event (Sleep (b * 2 ^ k)) (record_event (Attempt r) w1)"
    have nonneg: "\<not> b * 2 ^ k < 0" using assms by (simp add: not_less)
    have step: "download_loop tar url p m b net k w = download_loop tar url p m b net (Suc k) ?w3"
      using km Inl nonneg
      by (simp add: download_loop_step [where net = net and k = k, OF Suc.prems(1) dl] sleep_def)
    from Suc.IH [OF km(2) km(3), of ?w3] obtain w' errs last evs where
      ih: "download_loop tar url p m b net (Suc k) ?w3 = Inr w'"
        "trace w' = trace ?w3 @ evs"
        "attempts_and_sleeps evs = backoff_schedule b (Suc k) errs @ [Attempt last]"
        "int (Suc k + length errs) \<le> m"
        "isl last \<longrightarrow> int (Suc k + length errs) = m"
        "length (filter is_get evs) = (if dirname p = [] then 0 else length errs + 1)"
        "failed_downloads w' = (if isl last then failed_downloads ?w3 @ tar @ [CHR 0x0A]
                                 else failed_downloads ?w3)"
      by blast
    show ?thesis
      apply (rule exI [of _ w'])
      apply (rule exI [of _ "e # errs"])
      apply (rule exI [of _ last])
      apply (rule exI [of _ "evs0 @ [Attempt r, Sleep (b * 2 ^ k)] @ evs"])
      using ih ev0 Inl
      apply (simp add: step trace_record_event failed_downloads_record_event)
      apply (auto simp add: attempts_and_sleeps_def is_get_def)
      done
  qed
qed

text \<open>The same for the task as \<^verbatim>\<open>main\<close> configures it.\<close>

lemma download_partial_run:
  "\<exists>w' errs last evs. download_partial out (tar, url) net w = Inr w'
       \<and> trace w' = trace w @ evs
       \<and> attempts_and_sleeps evs = backoff_schedule (1 / 2) 0 errs @ [Attempt last]
       \<and> length errs \<le> 10
       \<and> (isl last \<longrightarrow> length errs = 10)
       \<and> length (filter is_get evs)
            = (if dirname (path_join out tar) = [] then 0 else length errs + 1)
       \<and> failed_downloads w'
            = (if isl last then failed_downloads w @ tar @ [CHR 0x0A] else failed_downloads w)"
  using download_loop_run [of "1 / 2" 0 10 10 tar url "path_join out tar" net w]
  by (simp add: download_partial_def download_task_def)

text \<open>
  C2. With \<^verbatim>\<open>max_retries = 10\<close> and \<^verbatim>\<open>backoff_factor = 0.5\<close> the task returns, and
  what it did is: some number \<open>n \<le> 10\<close> of failed attempts, the one numbered
  \<open>i + 1\<close> followed by a sleep of \<open>0.5 * 2 ^ i\<close> seconds, then one last attempt.
  Every attempt before the last failed, so the loop stops at the first attempt that
  succeeds; the last attempt can fail only as attempt number 11. Each attempt sends one
  request, \<open>n + 1 \<le> 11\<close> in all, unless the local path has no directory part:
  then every attempt raises before its request and none is sent.
\<close>

theorem retry_schedule:
  "\<exists>w' errs last. download_partial out (tar, url) net w = Inr w'
     \<and> attempts_and_sleeps (new_events w w') = backoff_schedule (1 / 2) 0 errs @ [Attempt last]
     \<and> length errs \<le> 10
     \<and> (isl last \<longrightarrow> length errs = 10)
     \<and> length (filter is_get (new_events w w'))
          = (if dirname (path_join out tar) = [] then 0 else length errs + 1)"
proof -
  from download_partial_run [of out tar url net w] obtain w' errs last evs where
    run: "download_partial out (tar, url) net w = Inr w'" "trace w' = trace w @ evs"
      "attempts_and_sleeps evs = backoff_schedule (1 / 2) 0 errs @ [Attempt last]"
      "length errs \<le> 10" "isl last \<longrightarrow> length errs = 10"
      "length (filter is_get evs)
         = (if dirname (path_join out tar) = [] then 0 else length errs + 1)"
    by blast
  from run(2) have "new_events w w' = evs" by (rule new_events_append)
  with run show ?thesis by blast
qed

text \<open>
  C2 at a network that refuses three attempts and then serves the file: four attempts,
  with sleeps of 0.5, 1 and 2 seconds before the second, third and fourth.
\<close>

theorem retry_schedule_witness:
  "(case download_partial ''raw/'' (''a.tar'', ''u'') flaky (disk []) of
      Inl e \<Rightarrow> []
    | Inr w' \<Rightarrow> attempts_and_sleeps (new_events (disk []) w'))
   = [Attempt (Inl RequestException), Sleep (1 / 2),
      Attempt (Inl RequestException), Sleep 1,
      Attempt (Inl RequestException), Sleep 2,
      Attempt (Inr Completed)]"
  using retry_schedule [of "''raw/''" "''a.tar''" "''u''" flaky "disk []"]
  by (simp add: task_eval fetch_eval)

text \<open>
  C7. The task as \<^verbatim>\<open>main\<close> configures it returns without raising. If none of its
  attempts succeeded, the text of \<^verbatim>\<open>failed_downloads.txt\<close> has grown by exactly one
  line, the target identifier; if one did, the text is as it was.
\<close>

theorem exhaustion_recorded:
  "\<exists>w'. download_partial out (tar, url) net w = Inr w'
     \<and> ((\<forall>done. Attempt (Inr done) \<notin> set (new_events w w'))
          \<longrightarrow> failed_downloads w' = failed_downloads w @ tar @ [CHR 0x0A])
     \<and> ((\<exists>done. Attempt (Inr done) \<in> set (new_events w w'))
          \<longrightarrow> failed_downloads w' = failed_downloads w)"
proof -
  from download_partial_run [of out tar url net w] obtain w' errs last evs where
    run: "download_partial out (tar, url) net w = Inr w'" "trace w' = trace w @ evs"
      "attempts_and_sleeps evs = backoff_schedule (1 / 2) 0 errs @ [Attempt last]"
      "failed_downloads w'
            = (if isl last then failed_downloads w @ tar @ [CHR 0x0A] else failed_downloads w)"
    by blast
  from run(2) have evs: "new_events w w' = evs" by (rule new_events_append)
  have mem: "Attempt r \<in> set evs \<longleftrightarrow> Attempt r \<in> set (attempts_and_sleeps evs)" for r
    by (simp add: attempts_and_sleeps_def)
  have sched: "Attempt (Inr d) \<notin> set (backoff_schedule b n es)" for d b n es
    by (induction es arbitrary: n) simp_all
  have "(\<exists>d. Attempt (Inr d) \<in> set evs) \<longleftrightarrow> \<not> isl last"
    by (cases last) (auto simp add: mem run(3) sched)
  with run evs show ?thesis by auto
qed

text \<open>
  C7 at a network that refuses every attempt: eleven attempts fail and the log holds
  the one line \<^verbatim>\<open>a.tar\<close>.
\<close>

theorem exhaustion_recorded_witness:
  "(case download_partial ''raw/'' (''a.tar'', ''u'') unreachable (disk []) of
      Inl e \<Rightarrow> None
    | Inr w' \<Rightarrow> Some (failed_downloads w',
                     filter (\<lambda>e. case e of Attempt r \<Rightarrow> True | _ \<Rightarrow> False)
                       (new_events (disk []) w')))
   = Some (''a.tar'' @ [CHR 0x0A], replicate 11 (Attempt (Inl RequestException)))"
  using exhaustion_recorded [of "''raw/''" "''a.tar''" "''u''" unreachable "disk []"]
  by (simp add: task_eval fetch_eval eval_nat_numeral)

text \<open>
  C10. For every target, url, output directory, network behaviour and starting state,
  the task as \<^verbatim>\<open>main\<close> configures it returns: whatever exceptions
  \<^verbatim>\<open>download_file\<close> raises, none leaves \<^verbatim>\<open>download_task\<close>.
\<close>

theorem download_task_returns:
  "\<exists>w'. download_partial out (tar, url) net w = Inr w'"
  using download_partial_run [of out tar url net w] by blast

end
